theory Spec2Isabelle
  imports Complex_Main
begin

section \<open>SI prefix formatting and parsing\<close>

text \<open>
  The repository holds two implementations of the same library: the package
  \<^verbatim>\<open>si_prefix/__init__.py\<close> (\<^verbatim>\<open>_split\<close>, \<^verbatim>\<open>_prefix\<close>, \<^verbatim>\<open>with_format\<close>, \<^verbatim>\<open>parse\<close>) and the
  older module \<^verbatim>\<open>si_prefix.py\<close> (\<^verbatim>\<open>split\<close>, \<^verbatim>\<open>prefix\<close>, \<^verbatim>\<open>si_format\<close>, \<^verbatim>\<open>si_parse\<close>,
  \<^verbatim>\<open>si_prefix_scale\<close>, \<^verbatim>\<open>si_prefix_expof10\<close>).  Both are embedded.  A Python name with a leading underscore
  is written with the prefix \<open>priv_\<close>.

  Conventions of the embedding.
  \<^item> A Python \<^verbatim>\<open>str\<close> is a \<open>string\<close>; one \<open>char\<close> is one code point below 256, so the
    micro sign U+00B5 is the single character \<open>CHR 0xB5\<close>.
  \<^item> A Python \<^verbatim>\<open>int\<close> is an \<open>int\<close>.
  \<^item> A finite Python \<^verbatim>\<open>float\<close> is a \<open>rat\<close>: arithmetic is exact, there is no rounding
    to 53 bits, no overflow and no negative zero.  In the code a value of size \<open>10^-306\<close>
    or less makes \<^verbatim>\<open>_split\<close> and \<^verbatim>\<open>split\<close> raise \<^verbatim>\<open>OverflowError\<close> (they multiply by the
    \<^verbatim>\<open>int\<close> \<^verbatim>\<open>10 ** 309\<close> or a larger one); the model returns a pair there.
  \<^item> An exception is the left summand of a result \<open>pyerr + 'a\<close>.
\<close>

subsection \<open>Exceptions\<close>

datatype pyerr = ValueError | KeyError | IndexError | TypeError | Unmodelled

subsection \<open>Built-in string operations\<close>

text \<open>\<^verbatim>\<open>str(n)\<close> for an integer.\<close>

definition digit_char :: "nat \<Rightarrow> char" where
  "digit_char d = ''0123456789'' ! (d mod 10)"

function str_nat :: "nat \<Rightarrow> string" where
  "str_nat n = (if n < 10 then [digit_char n] else str_nat (n div 10) @ [digit_char (n mod 10)])"
  by pat_completeness auto
termination
  by (relation "measure (\<lambda>n. n)") auto

declare str_nat.simps [simp del]

definition str_int :: "int \<Rightarrow> string" where
  "str_int i = (if i < 0 then CHR ''-'' # str_nat (nat (- i)) else str_nat (nat i))"

text \<open>
  \<^verbatim>\<open>s.replace(old, new)\<close>.  With an empty \<^verbatim>\<open>old\<close> Python inserts \<^verbatim>\<open>new\<close> before every
  character and at the end; otherwise the occurrences of \<^verbatim>\<open>old\<close> are replaced from
  left to right without overlap.  \<open>replace_from k\<close> skips the \<open>k\<close> characters that
  belong to the occurrence just replaced.
\<close>

fun starts_with :: "string \<Rightarrow> string \<Rightarrow> bool" where
  "starts_with s [] = True"
| "starts_with [] (p # ps) = False"
| "starts_with (c # cs) (p # ps) = (c = p \<and> starts_with cs ps)"

fun replace_from :: "nat \<Rightarrow> string \<Rightarrow> string \<Rightarrow> string \<Rightarrow> string" where
  "replace_from k old new [] = []"
| "replace_from k old new (c # cs) =
     (if 0 < k then replace_from (k - 1) old new cs
      else if starts_with (c # cs) old then new @ replace_from (length old - 1) old new cs
      else c # replace_from 0 old new cs)"

definition py_replace :: "string \<Rightarrow> string \<Rightarrow> string \<Rightarrow> string" where
  "py_replace old new s =
     (if old = [] then new @ concat (map (\<lambda>c. c # new) s)
      else replace_from 0 old new s)"

text \<open>\<^verbatim>\<open>s.strip()\<close>: the white space of Python among the code points below 256.\<close>

definition is_space :: "char \<Rightarrow> bool" where
  "is_space c = (let n = of_char c :: nat in
     (9 \<le> n \<and> n \<le> 13) \<or> (28 \<le> n \<and> n \<le> 32) \<or> n = 133 \<or> n = 160)"

definition py_strip :: "string \<Rightarrow> string" where
  "py_strip s = rev (dropWhile is_space (rev (dropWhile is_space s)))"

subsection \<open>The built-in \<^verbatim>\<open>float(text)\<close>\<close>

text \<open>
  \<^verbatim>\<open>float\<close> strips white space, which for it is tab to carriage return, the space,
  U+0085 and U+00A0 (the separators U+001C to U+001F, which \<^verbatim>\<open>strip\<close> removes, it keeps and
  rejects).  It accepts, after an optional sign, \<^verbatim>\<open>inf\<close>, \<^verbatim>\<open>infinity\<close>
  and \<^verbatim>\<open>nan\<close> in any letter case, or a decimal number
  \<^verbatim>\<open>digitpart ["."] | [digitpart] "." digitpart\<close> with an optional exponent
  \<^verbatim>\<open>("e" | "E") [sign] digitpart\<close>, where a \<^verbatim>\<open>digitpart\<close> is a run of digits that may
  have single underscores between digits.  Anything else raises \<^verbatim>\<open>ValueError\<close>.
  The value of a decimal number is kept exact.
\<close>

datatype pyfloat = Finite rat | Infinity bool | NaN

definition is_digit :: "char \<Rightarrow> bool" where
  "is_digit c = (let n = of_char c :: nat in 48 \<le> n \<and> n \<le> 57)"

definition digit_val :: "char \<Rightarrow> nat" where
  "digit_val c = of_char c - 48"

fun digitpart :: "string \<Rightarrow> bool" where
  "digitpart [] = False"
| "digitpart [c] = is_digit c"
| "digitpart (c # d # r) =
     (is_digit c \<and> (if d = CHR ''_'' then digitpart r else digitpart (d # r)))"

definition digits_val :: "string \<Rightarrow> nat" where
  "digits_val s = foldl (\<lambda>a c. 10 * a + digit_val c) 0 (filter is_digit s)"

definition lower_char :: "char \<Rightarrow> char" where
  "lower_char c =
     (let n = of_char c :: nat in if 65 \<le> n \<and> n \<le> 90 then char_of (n + 32) else c)"

definition pow10 :: "int \<Rightarrow> rat" where
  "pow10 e = (if 0 \<le> e then 10 ^ nat e else 1 / 10 ^ nat (- e))"

definition signed_digits :: "string \<Rightarrow> int option" where
  "signed_digits s =
     (case s of
        CHR ''-'' # r \<Rightarrow> (if digitpart r then Some (- int (digits_val r)) else None)
      | CHR ''+'' # r \<Rightarrow> (if digitpart r then Some (int (digits_val r)) else None)
      | _ \<Rightarrow> (if digitpart s then Some (int (digits_val s)) else None))"

definition is_exp_mark :: "char \<Rightarrow> bool" where
  "is_exp_mark c = (c = CHR ''e'' \<or> c = CHR ''E'')"

definition mantissa_literal :: "string \<Rightarrow> rat option" where
  "mantissa_literal m =
     (let ip = takeWhile (\<lambda>c. c \<noteq> CHR ''.'') m;
          r = dropWhile (\<lambda>c. c \<noteq> CHR ''.'') m
      in if r = [] then (if digitpart ip then Some (of_nat (digits_val ip)) else None)
         else let fp = tl r
              in if (ip = [] \<or> digitpart ip) \<and> (fp = [] \<or> digitpart fp) \<and> \<not> (ip = [] \<and> fp = [])
                 then Some (of_nat (digits_val ip)
                            + of_nat (digits_val fp) / 10 ^ length (filter is_digit fp))
                 else None)"

definition number_literal :: "string \<Rightarrow> rat option" where
  "number_literal u =
     (let m = takeWhile (\<lambda>c. \<not> is_exp_mark c) u;
          x = dropWhile (\<lambda>c. \<not> is_exp_mark c) u
      in case mantissa_literal m of
           None \<Rightarrow> None
         | Some q \<Rightarrow>
             (if x = [] then Some q
              else case signed_digits (tl x) of
                     None \<Rightarrow> None
                   | Some e \<Rightarrow> Some (q * pow10 e)))"

definition float_literal :: "string \<Rightarrow> pyfloat option" where
  "float_literal s =
     (let neg = (case s of c # r \<Rightarrow> c = CHR ''-'' | [] \<Rightarrow> False);
          u = (case s of c # r \<Rightarrow> (if c = CHR ''-'' \<or> c = CHR ''+'' then r else s) | [] \<Rightarrow> s);
          l = map lower_char u
      in if l = ''inf'' \<or> l = ''infinity'' then Some (Infinity neg)
         else if l = ''nan'' then Some NaN
         else case number_literal u of
                None \<Rightarrow> None
              | Some q \<Rightarrow> Some (Finite (if neg then - q else q)))"

definition is_float_space :: "char \<Rightarrow> bool" where
  "is_float_space c = (let n = of_char c :: nat in
     (9 \<le> n \<and> n \<le> 13) \<or> n = 32 \<or> n = 133 \<or> n = 160)"

definition float_strip :: "string \<Rightarrow> string" where
  "float_strip s = rev (dropWhile is_float_space (rev (dropWhile is_float_space s)))"

definition py_float :: "string \<Rightarrow> pyerr + pyfloat" where
  "py_float s = (case float_literal (float_strip s) of None \<Rightarrow> Inl ValueError | Some v \<Rightarrow> Inr v)"

subsection \<open>The prefix table of the package\<close>

record SiPrefix =
  short_name :: string
  long_name :: string
  exponent :: int

definition mk_prefix :: "string \<Rightarrow> string \<Rightarrow> int \<Rightarrow> SiPrefix" where
  "mk_prefix s l e = \<lparr>short_name = s, long_name = l, exponent = e\<rparr>"

definition get_e_string :: "SiPrefix \<Rightarrow> string" where
  "get_e_string p = CHR ''e'' # str_int (exponent p)"

definition SI_PREFIXES :: "SiPrefix list" where
  "SI_PREFIXES =
     [mk_prefix ''y'' ''yocto'' (-24),
      mk_prefix ''z'' ''zepto'' (-21),
      mk_prefix ''a'' ''atto'' (-18),
      mk_prefix ''f'' ''femto'' (-15),
      mk_prefix ''p'' ''pico'' (-12),
      mk_prefix ''n'' ''nano'' (-9),
      mk_prefix [CHR 0xB5] ''micro'' (-6),
      mk_prefix ''m'' ''milli'' (-3),
      mk_prefix [] [] 0,
      mk_prefix ''k'' ''kilo'' 3,
      mk_prefix ''M'' ''mega'' 6,
      mk_prefix ''G'' ''giga'' 9,
      mk_prefix ''T'' ''tera'' 12,
      mk_prefix ''P'' ''peta'' 15,
      mk_prefix ''E'' ''exa'' 18,
      mk_prefix ''Z'' ''zetta'' 21,
      mk_prefix ''Y'' ''yotta'' 24]"

subsection \<open>\<^verbatim>\<open>parse\<close> of the package\<close>

text \<open>
  \<^verbatim>\<open>parse\<close> removes every space, then walks the table in order and replaces each short
  name by its \<^verbatim>\<open>e<exponent>\<close> string, the empty short name of exponent 0 included, and
  hands the text to \<^verbatim>\<open>float\<close>.
\<close>

definition replace_prefix :: "string \<Rightarrow> SiPrefix \<Rightarrow> string" where
  "replace_prefix v p = py_replace (short_name p) (get_e_string p) v"

definition substituted :: "string \<Rightarrow> string" where
  "substituted v = foldl replace_prefix (py_replace '' '' [] v) SI_PREFIXES"

definition parse :: "string \<Rightarrow> pyerr + pyfloat" where
  "parse v = py_float (substituted v)"

subsection \<open>Numbers\<close>

text \<open>
  \<^verbatim>\<open>10 ** e\<close> for an integer \<open>e\<close> is an \<^verbatim>\<open>int\<close> when \<open>e\<close> is not negative and a
  \<^verbatim>\<open>float\<close> otherwise; \<open>pynum\<close> keeps the two apart for \<^verbatim>\<open>isinstance\<close>.
\<close>

datatype pynum = PyInt int | PyFloat rat

definition py_pow10 :: "int \<Rightarrow> pynum" where
  "py_pow10 e = (if 0 \<le> e then PyInt (10 ^ nat e) else PyFloat (1 / 10 ^ nat (- e)))"

fun as_float :: "pynum \<Rightarrow> rat" where
  "as_float (PyInt n) = of_int n"
| "as_float (PyFloat q) = q"

text \<open>\<^verbatim>\<open>round(x, ndigits)\<close>: to the nearest multiple of \<open>10^-ndigits\<close>, ties to even.\<close>

definition round_half_even :: "rat \<Rightarrow> int" where
  "round_half_even x =
     (let f = \<lfloor>x\<rfloor>; d = x - of_int f
      in if d < 1 / 2 then f
         else if 1 / 2 < d then f + 1
         else if even f then f else f + 1)"

definition py_round :: "rat \<Rightarrow> nat \<Rightarrow> rat" where
  "py_round x ndigits = of_int (round_half_even (x * 10 ^ ndigits)) / 10 ^ ndigits"

text \<open>
  \<^verbatim>\<open>int(math.log10(x))\<close> for \<open>0 < x\<close>: the decimal logarithm cut towards zero, computed
  exactly.  \<open>ilog10 n\<close> is the number of decimal digits of \<open>n\<close> less one.
\<close>

function ilog10 :: "nat \<Rightarrow> nat" where
  "ilog10 n = (if n < 10 then 0 else Suc (ilog10 (n div 10)))"
  by pat_completeness auto
termination
  by (relation "measure (\<lambda>n. n)") auto

declare ilog10.simps [simp del]

definition int_log10 :: "rat \<Rightarrow> int" where
  "int_log10 x = (if 1 \<le> x then int (ilog10 (nat \<lfloor>x\<rfloor>)) else - int (ilog10 (nat \<lfloor>1 / x\<rfloor>)))"

text \<open>
  Fixed-point text with \<open>p\<close> fractional digits, as \<^verbatim>\<open>f"{x:.{p}f}"\<close> and \<^verbatim>\<open>"%.pf" % x\<close>
  give it: there is no point when \<open>p = 0\<close>, and the sign is that of \<open>x\<close>.
\<close>

definition format_fixed :: "rat \<Rightarrow> nat \<Rightarrow> string" where
  "format_fixed x p =
     (let ds = str_nat (nat (round_half_even (\<bar>x\<bar> * 10 ^ p)));
          padded = replicate (Suc p - length ds) CHR ''0'' @ ds;
          k = length padded - p
      in (if x < 0 then ''-'' else [])
         @ take k padded @ (if p = 0 then [] else CHR ''.'' # drop k padded))"

subsection \<open>\<^verbatim>\<open>_split\<close> of the package and \<^verbatim>\<open>split\<close> of the module\<close>

text \<open>
  \<^verbatim>\<open>_split\<close>: the sign is taken off, 0 returns at once, the exponent is aligned to a
  multiple of 3, the value is scaled, divided by 1000 when it has reached 1000, given
  its sign back and rounded.
\<close>

definition priv_split :: "rat \<Rightarrow> nat \<Rightarrow> rat \<times> int" where
  "priv_split val precision =
     (let negative = (val < 0);
          v = (if negative then - val else val)
      in if \<not> negative \<and> v = 0 then (0, 0)
         else
           let e0 = int_log10 v;
               exp_of_10 = (if 0 < e0 then e0 div 3 * 3 else (- e0 + 3) div 3 * (- 3));
               v1 = v * as_float (py_pow10 (- exp_of_10));
               v2 = (if 1000 \<le> v1 then v1 / 1000 else v1);
               e2 = (if 1000 \<le> v1 then exp_of_10 + 3 else exp_of_10);
               v3 = (if negative then v2 * (- 1) else v2)
           in (py_round v3 precision, e2))"

text \<open>
  The module's \<^verbatim>\<open>split\<close> has the same steps without the rounding.  It counts \<^verbatim>\<open>digits\<close>
  from the precision and the size of the scaled value, and does not read it again.
\<close>

definition split :: "rat \<Rightarrow> nat \<Rightarrow> rat \<times> int" where
  "split val precision =
     (let negative = (val < 0);
          v = (if negative then - val else val)
      in if \<not> negative \<and> v = 0 then (0, 0)
         else
           let e0 = int_log10 v;
               expof10 = (if 0 < e0 then e0 div 3 * 3 else (- e0 + 3) div 3 * (- 3));
               v1 = v * as_float (py_pow10 (- expof10));
               v2 = (if 1000 \<le> v1 then v1 / 1000 else v1);
               e2 = (if 1000 \<le> v1 then expof10 + 3 else expof10);
               digits = (if 1000 \<le> v1 then int precision + 1
                         else if 100 \<le> v1 then int precision + 1 - 2
                         else if 10 \<le> v1 then int precision + 1 - 1
                         else int precision + 1);
               v3 = (if negative then v2 * (- 1) else v2)
           in (v3, e2))"

subsection \<open>\<^verbatim>\<open>_prefix\<close> of the package and \<^verbatim>\<open>prefix\<close> of the module\<close>

fun find_prefix :: "int \<Rightarrow> SiPrefix list \<Rightarrow> pyerr + string" where
  "find_prefix e [] = Inl ValueError"
| "find_prefix e (p # ps) = (if e = exponent p then Inr (short_name p) else find_prefix e ps)"

definition priv_prefix :: "int \<Rightarrow> pyerr + string" where
  "priv_prefix exp_of_10 = find_prefix exp_of_10 SI_PREFIXES"

definition SI_PREFIX_UNITS :: string where
  "SI_PREFIX_UNITS = ''yzafpn'' @ [CHR 0xB5] @ ''m kMGTPEZY''"

definition prefix_levels :: int where
  "prefix_levels = (int (length SI_PREFIX_UNITS) - 1) div 2"

definition prefix :: "int \<Rightarrow> pyerr + string" where
  "prefix expof10 =
     (let si_level = expof10 div 3
      in if prefix_levels < \<bar>si_level\<bar> then Inl ValueError
         else Inr [SI_PREFIX_UNITS ! nat (si_level + prefix_levels)])"

subsection \<open>\<^verbatim>\<open>si_prefix_expof10\<close> and \<^verbatim>\<open>si_prefix_scale\<close> of the module\<close>

text \<open>\<^verbatim>\<open>s.index(sub)\<close>: the first position of \<^verbatim>\<open>sub\<close> in \<^verbatim>\<open>s\<close>, or \<^verbatim>\<open>ValueError\<close>.\<close>

fun index_from :: "nat \<Rightarrow> string \<Rightarrow> string \<Rightarrow> nat option" where
  "index_from k sub [] = (if sub = [] then Some k else None)"
| "index_from k sub (c # cs) =
     (if starts_with (c # cs) sub then Some k else index_from (Suc k) sub cs)"

definition py_index :: "string \<Rightarrow> string \<Rightarrow> pyerr + nat" where
  "py_index s sub = (case index_from 0 sub s of None \<Rightarrow> Inl ValueError | Some i \<Rightarrow> Inr i)"

definition si_prefix_expof10 :: "string \<Rightarrow> pyerr + int" where
  "si_prefix_expof10 si_unit =
     (case py_index SI_PREFIX_UNITS si_unit of
        Inl e \<Rightarrow> Inl e
      | Inr i \<Rightarrow> Inr (3 * (int i - prefix_levels)))"

definition si_prefix_scale :: "string \<Rightarrow> pyerr + int" where
  "si_prefix_scale si_unit =
     (case si_prefix_expof10 si_unit of
        Inl e \<Rightarrow> Inl e
      | Inr x \<Rightarrow> (case py_pow10 x of PyInt n \<Rightarrow> Inr n | PyFloat q \<Rightarrow> Inl TypeError))"

subsection \<open>The built-in \<^verbatim>\<open>template.format(**kwargs)\<close> with string arguments\<close>

text \<open>
  The template is read from left to right.  \<^verbatim>\<open>{{\<close> and \<^verbatim>\<open>}}\<close> stand for one brace, a
  lone brace raises \<^verbatim>\<open>ValueError\<close>, and \<^verbatim>\<open>{name}\<close> or \<^verbatim>\<open>{name:spec}\<close> is replaced by the
  keyword argument \<^verbatim>\<open>name\<close>, formatted by \<^verbatim>\<open>spec\<close>.  An empty or numeric name asks for
  a positional argument, of which there are none (\<^verbatim>\<open>IndexError\<close>); an unknown name
  raises \<^verbatim>\<open>KeyError\<close>.  The first error from the left is the one raised.

  Conversions (\<^verbatim>\<open>!r\<close>), attribute and index lookups (\<^verbatim>\<open>{a.b}\<close>, \<^verbatim>\<open>{a[0]}\<close>), fields nested
  in a specification, the zero flag without a fill character (whose meaning depends on
  the Python version) and position numbers, widths and precisions beyond nine digits
  (where the size of the machine word and of the memory decide) are outside this model:
  for them the result is \<open>Inl Unmodelled\<close>, which is not an outcome of the program.
\<close>

type_synonym kwargs = "(string \<times> string) list"

definition is_align :: "char \<Rightarrow> bool" where
  "is_align c = (c = CHR ''<'' \<or> c = CHR ''>'' \<or> c = CHR ''='' \<or> c = CHR ''^'')"

definition pad :: "char \<Rightarrow> char \<Rightarrow> nat \<Rightarrow> string \<Rightarrow> string" where
  "pad fill align width t =
     (let total = width - length t;
          left = (if align = CHR ''>'' then total else if align = CHR ''^'' then total div 2 else 0)
      in replicate left fill @ t @ replicate (total - left) fill)"

text \<open>
  \<^verbatim>\<open>format(v, spec)\<close> for a string \<open>v\<close> and a specification
  of the parts fill and align, sign, \<^verbatim>\<open>z\<close>, \<^verbatim>\<open>#\<close>, \<^verbatim>\<open>0\<close>, width, grouping, \<^verbatim>\<open>.precision\<close> and
  type, each optional and in this order.  A string takes no
  sign, no \<^verbatim>\<open>z\<close>, no \<^verbatim>\<open>#\<close>, no grouping, no \<^verbatim>\<open>=\<close> alignment and no type but \<^verbatim>\<open>s\<close>.
\<close>

definition opt_char :: "(char \<Rightarrow> bool) \<Rightarrow> string \<Rightarrow> bool" where
  "opt_char P s = (case s of [] \<Rightarrow> False | c # r \<Rightarrow> P c)"

definition skip_if :: "bool \<Rightarrow> string \<Rightarrow> string" where
  "skip_if b s = (if b then tl s else s)"

definition format_spec :: "string \<Rightarrow> string \<Rightarrow> pyerr + string" where
  "format_spec v spec =
     (let has_fill = opt_char is_align (drop 1 spec);
          has_align = (has_fill \<or> opt_char is_align spec);
          fill = (if has_fill then hd spec else CHR '' '');
          align = (if has_fill then hd (tl spec) else if has_align then hd spec else CHR ''<'');
          s1 = (if has_fill then drop 2 spec else skip_if has_align spec);
          has_sign = opt_char (\<lambda>c. c = CHR ''+'' \<or> c = CHR ''-'' \<or> c = CHR '' '') s1;
          s2 = skip_if has_sign s1;
          has_z = opt_char (\<lambda>c. c = CHR ''z'') s2;
          s3 = skip_if has_z s2;
          has_alt = opt_char (\<lambda>c. c = CHR ''#'') s3;
          s4 = skip_if has_alt s3;
          zero = (\<not> has_fill \<and> opt_char (\<lambda>c. c = CHR ''0'') s4);
          width = takeWhile is_digit s4;
          s5 = dropWhile is_digit s4;
          has_group = opt_char (\<lambda>c. c = CHR '','' \<or> c = CHR ''_'') s5;
          s6 = skip_if has_group s5;
          has_prec = opt_char (\<lambda>c. c = CHR ''.'') s6;
          prec = takeWhile is_digit (skip_if has_prec s6);
          s7 = (if has_prec then dropWhile is_digit (tl s6) else s6)
      in if has_prec \<and> prec = [] then Inl ValueError
         else if 1 < length s7 then Inl ValueError
         else if has_sign \<or> has_z \<or> has_alt \<or> has_group \<or> align = CHR ''=''
                 \<or> (s7 \<noteq> [] \<and> s7 \<noteq> ''s'') then Inl ValueError
         else if zero \<or> 9 < length width \<or> 9 < length prec then Inl Unmodelled
         else Inr (pad fill align (digits_val width)
                     (if has_prec then take (digits_val prec) v else v)))"

definition render_field :: "kwargs \<Rightarrow> string \<Rightarrow> pyerr + string" where
  "render_field kw f =
     (let name = takeWhile (\<lambda>c. c \<noteq> CHR '':'' \<and> c \<noteq> CHR ''!'') f;
          rest = dropWhile (\<lambda>c. c \<noteq> CHR '':'' \<and> c \<noteq> CHR ''!'') f
      in if CHR ''.'' \<in> set name \<or> CHR ''['' \<in> set name \<or> opt_char (\<lambda>c. c = CHR ''!'') rest
         then Inl Unmodelled
         else if list_all is_digit name
         then (if length name \<le> 9 then Inl IndexError else Inl Unmodelled)
         else case map_of kw name of
                None \<Rightarrow> Inl KeyError
              | Some v \<Rightarrow> (if rest = [] then Inr v else format_spec v (tl rest)))"

datatype fmode = Lit | Opened | Field string | Closed

fun format_scan :: "kwargs \<Rightarrow> fmode \<Rightarrow> string \<Rightarrow> string \<Rightarrow> pyerr + string" where
  "format_scan kw Lit out [] = Inr out"
| "format_scan kw m out [] = Inl ValueError"
| "format_scan kw Lit out (c # cs) =
     (if c = CHR ''{'' then format_scan kw Opened out cs
      else if c = CHR ''}'' then format_scan kw Closed out cs
      else format_scan kw Lit (out @ [c]) cs)"
| "format_scan kw Closed out (c # cs) =
     (if c = CHR ''}'' then format_scan kw Lit (out @ [c]) cs else Inl ValueError)"
| "format_scan kw Opened out (c # cs) =
     (if c = CHR ''{'' then format_scan kw Lit (out @ [c]) cs
      else if c = CHR ''}'' then
        (case render_field kw [] of
           Inl e \<Rightarrow> Inl e
         | Inr t \<Rightarrow> format_scan kw Lit (out @ t) cs)
      else format_scan kw (Field [c]) out cs)"
| "format_scan kw (Field f) out (c # cs) =
     (if c = CHR ''}'' then
        (case render_field kw f of
           Inl e \<Rightarrow> Inl e
         | Inr t \<Rightarrow> format_scan kw Lit (out @ t) cs)
      else if c = CHR ''{'' then
        (if CHR '':'' \<in> set f \<or> CHR ''!'' \<in> set f \<or> CHR ''['' \<in> set f
         then Inl Unmodelled else Inl ValueError)
      else format_scan kw (Field (f @ [c])) out cs)"

definition str_format :: "string \<Rightarrow> kwargs \<Rightarrow> pyerr + string" where
  "str_format template kw = format_scan kw Lit [] template"

subsection \<open>\<^verbatim>\<open>with_format\<close> of the package and \<^verbatim>\<open>si_format\<close> of the module\<close>

definition signed_exp :: "int \<Rightarrow> string" where
  "signed_exp e = (if 0 < e then ''+'' else []) @ str_int e"

text \<open>
  The \<^verbatim>\<open>try\<close> block holds the prefix lookup, \<^verbatim>\<open>strip\<close> and the rendering of the first
  template; \<^verbatim>\<open>except ValueError\<close> catches that exception from any of them, and every
  other exception leaves the function.
\<close>

definition with_format :: "rat \<Rightarrow> nat \<Rightarrow> string \<Rightarrow> string \<Rightarrow> pyerr + string" where
  "with_format val precision format_str exp_format_str =
     (let (scale_value, exp_of_10) = priv_split val precision;
          value_str = format_fixed scale_value precision;
          tried = (case priv_prefix exp_of_10 of
                     Inl err \<Rightarrow> Inl err
                   | Inr s \<Rightarrow> str_format format_str
                                [(''value'', value_str), (''prefix'', py_strip s)])
      in if tried = Inl ValueError
         then (if exp_of_10 = 0 then Inr value_str
               else str_format exp_format_str
                      [(''value'', value_str), (''exp_of_10'', signed_exp exp_of_10)])
         else tried)"

definition si_format :: "rat \<Rightarrow> nat \<Rightarrow> string \<Rightarrow> string \<Rightarrow> pyerr + string" where
  "si_format val precision format_str exp_format_str =
     (let (svalue, expof10) = split val precision;
          value_str = format_fixed svalue precision;
          tried = (case prefix expof10 of
                     Inl err \<Rightarrow> Inl err
                   | Inr s \<Rightarrow> str_format format_str
                                [(''value'', value_str), (''prefix'', py_strip s)])
      in if tried = Inl ValueError
         then str_format exp_format_str
                [(''value'', value_str), (''expof10'', signed_exp expof10)]
         else tried)"

text \<open>The default arguments of the two formatters.\<close>

definition default_format_str :: string where
  "default_format_str = ''{value} {prefix}''"

definition default_exp_format_str :: string where
  "default_exp_format_str = ''{value}e{exp_of_10}''"

definition default_si_exp_format_str :: string where
  "default_si_exp_format_str = ''{value}e{expof10}''"

subsection \<open>\<^verbatim>\<open>si_parse\<close> of the module\<close>

text \<open>
  The two patterns of \<^verbatim>\<open>si_parse\<close> use no more than character classes, sequence,
  choice and repetition, so whether a text matches is membership in a regular language,
  decided here character by character.  \<^verbatim>\<open>\s\<close> is \<open>is_space\<close>, \<^verbatim>\<open>\d\<close> is \<open>is_digit\<close>, the
  unescaped \<^verbatim>\<open>.\<close> is any character but the line feed, and \<^verbatim>\<open>$\<close> is the end of the text or
  the place before a last line feed.
\<close>

datatype pattern =
  Nothing | Empty | One_of "char \<Rightarrow> bool" | Either pattern pattern | Then pattern pattern
  | Many pattern

fun takes_empty :: "pattern \<Rightarrow> bool" where
  "takes_empty Nothing = False"
| "takes_empty Empty = True"
| "takes_empty (One_of P) = False"
| "takes_empty (Either r s) = (takes_empty r \<or> takes_empty s)"
| "takes_empty (Then r s) = (takes_empty r \<and> takes_empty s)"
| "takes_empty (Many r) = True"

fun after_char :: "char \<Rightarrow> pattern \<Rightarrow> pattern" where
  "after_char c Nothing = Nothing"
| "after_char c Empty = Nothing"
| "after_char c (One_of P) = (if P c then Empty else Nothing)"
| "after_char c (Either r s) = Either (after_char c r) (after_char c s)"
| "after_char c (Then r s) =
     (if takes_empty r then Either (Then (after_char c r) s) (after_char c s)
      else Then (after_char c r) s)"
| "after_char c (Many r) = Then (after_char c r) (Many r)"

text \<open>The whole text matches; and, for \<^verbatim>\<open>pattern.match\<close>, some start of the text matches.\<close>

fun matches_all :: "pattern \<Rightarrow> string \<Rightarrow> bool" where
  "matches_all r [] = takes_empty r"
| "matches_all r (c # cs) = matches_all (after_char c r) cs"

fun matches_start :: "pattern \<Rightarrow> string \<Rightarrow> bool" where
  "matches_start r [] = takes_empty r"
| "matches_start r (c # cs) = (takes_empty r \<or> matches_start (after_char c r) cs)"

definition maybe :: "pattern \<Rightarrow> pattern" where
  "maybe r = Either r Empty"

definition spaces :: pattern where
  "spaces = Many (One_of is_space)"

definition digits1 :: pattern where
  "digits1 = Then (One_of is_digit) (Many (One_of is_digit))"

definition signed_digits1 :: pattern where
  "signed_digits1 = Then (maybe (One_of (\<lambda>c. c = CHR ''+'' \<or> c = CHR ''-''))) digits1"

definition fraction_group :: pattern where
  "fraction_group = Then (One_of (\<lambda>c. c \<noteq> CHR 0x0A)) digits1"

definition exponent_tail :: pattern where
  "exponent_tail =
     Then spaces
       (Then (maybe (Then (One_of is_exp_mark) (Then spaces signed_digits1)))
          (maybe (One_of (\<lambda>c. c = CHR 0x0A))))"

text \<open>
  \<^verbatim>\<open>cre_10e_number\<close> is
  \<^verbatim>\<open>^\s*(?P<integer>[\+\-]?\d+)?(?P<fraction>.\d+)?\s*([eE]\s*(?P<expof10>[\+\-]?\d+))?$\<close>.
  The matcher tries the group \<^verbatim>\<open>integer\<close> before leaving it out, and then the group
  \<^verbatim>\<open>fraction\<close> before leaving it out; the match it returns has both groups unset when the
  text matches in no other way.
\<close>

definition number_with_integer :: pattern where
  "number_with_integer = Then spaces (Then signed_digits1 (Then (maybe fraction_group) exponent_tail))"

definition number_with_fraction :: pattern where
  "number_with_fraction = Then spaces (Then fraction_group exponent_tail)"

definition number_without_digits :: pattern where
  "number_without_digits = Then spaces exponent_tail"

text \<open>
  \<^verbatim>\<open>CRE_SI_NUMBER\<close> is
  \<^verbatim>\<open>\s*(?P<sign>[\+\-])?(?P<integer>\d+)(?P<fraction>.\d+)?\s*(?P<si_unit>[yzafpn\<mu>m kMGTPEZY])?\s*\<close>,
  with these four named groups.
\<close>

definition CRE_SI_NUMBER :: pattern where
  "CRE_SI_NUMBER =
     Then spaces
       (Then signed_digits1
          (Then (maybe fraction_group)
             (Then spaces (Then (maybe (One_of (\<lambda>c. c \<in> set SI_PREFIX_UNITS))) spaces))))"

definition CRE_SI_NUMBER_groups :: "string list" where
  "CRE_SI_NUMBER_groups = [''sign'', ''integer'', ''fraction'', ''si_unit'']"

text \<open>
  After a match of \<^verbatim>\<open>CRE_SI_NUMBER\<close> the unit is one of the symbols or the space put in
  its place, so the scale is computed without error; then \<^verbatim>\<open>d["number"]\<close> is read from
  the dictionary of the named groups.  Were there such a group, the function would go
  on to the product, which this model leaves out (\<open>Unmodelled\<close>).
\<close>

definition si_parse :: "string \<Rightarrow> pyerr + pyfloat" where
  "si_parse v =
     (let with_integer = matches_all number_with_integer v;
          with_fraction = matches_all number_with_fraction v;
          without_digits = matches_all number_without_digits v
      in if with_integer \<or> with_fraction \<or> without_digits
         then (if \<not> with_integer \<and> \<not> with_fraction then Inl ValueError else py_float v)
         else if \<not> matches_start CRE_SI_NUMBER v then Inl ValueError
         else if ''number'' \<in> set CRE_SI_NUMBER_groups then Inl Unmodelled
         else Inl KeyError)"

section \<open>Properties\<close>

subsection \<open>\<^verbatim>\<open>parse\<close> raises on every text\<close>

text \<open>
  The table entry of exponent 0 has the empty short name, and replacing the empty string
  puts \<^verbatim>\<open>e0\<close> in front of the text.  The eight replacements that follow are of letters
  other than \<^verbatim>\<open>e\<close> and \<^verbatim>\<open>0\<close>, so the text handed to \<^verbatim>\<open>float\<close> starts with \<^verbatim>\<open>e\<close>, which
  no number, \<^verbatim>\<open>inf\<close> or \<^verbatim>\<open>nan\<close> does.
\<close>

lemma strip_keeps_head:
  assumes "\<not> is_float_space c"
  shows "\<exists>u. float_strip (c # t) = c # u"
proof -
  have "dropWhile is_float_space (rev t @ [c]) = dropWhile is_float_space (rev t) @ [c]
        \<or> dropWhile is_float_space (rev t @ [c]) = [c]"
    using assms by (simp add: dropWhile_append)
  then have "\<exists>u. rev (dropWhile is_float_space (rev t @ [c])) = c # u"
    by (elim disjE) simp_all
  then show ?thesis
    using assms by (simp add: float_strip_def)
qed

lemma float_literal_e: "float_literal (CHR ''e'' # u) = None"
  by (simp add: float_literal_def number_literal_def mantissa_literal_def is_exp_mark_def
      lower_char_def Let_def)

lemma py_float_e: "py_float (CHR ''e'' # t) = Inl ValueError"
proof -
  have "\<not> is_float_space CHR ''e''"
    by (simp add: is_float_space_def)
  then obtain u where "float_strip (CHR ''e'' # t) = CHR ''e'' # u"
    using strip_keeps_head by blast
  then show ?thesis
    by (simp add: py_float_def float_literal_e)
qed

lemma replace_empty_name:
  "replace_prefix v (mk_prefix [] [] 0) = CHR ''e'' # CHR ''0'' # concat (map (\<lambda>c. c # ''e0'') v)"
  by (simp add: replace_prefix_def mk_prefix_def py_replace_def get_e_string_def str_int_def
      str_nat.simps [of 0] digit_char_def)

lemma replace_letter_keeps_e0:
  assumes "c \<noteq> CHR ''e''" "c \<noteq> CHR ''0''"
  shows "replace_prefix (CHR ''e'' # CHR ''0'' # t) (mk_prefix [c] l x)
         = CHR ''e'' # CHR ''0'' # replace_from 0 [c] (get_e_string (mk_prefix [c] l x)) t"
  using assms by (simp add: replace_prefix_def mk_prefix_def py_replace_def)

lemma substituted_e0: "\<exists>t. substituted v = CHR ''e'' # t"
  by (simp add: substituted_def SI_PREFIXES_def replace_empty_name replace_letter_keeps_e0)

lemma parse_raises: "parse v = Inl ValueError"
proof -
  obtain t where "substituted v = CHR ''e'' # t"
    using substituted_e0 by blast
  then show ?thesis
    by (simp add: parse_def py_float_e)
qed

subsection \<open>Evaluation on numerals\<close>

lemma floor_rat_numeral_div [simp]: "\<lfloor>numeral a / numeral b :: rat\<rfloor> = numeral a div numeral b"
  by (metis floor_divide_of_int_eq of_int_numeral)
lemma floor_rat_one_div [simp]: "\<lfloor>1 / numeral b :: rat\<rfloor> = 1 div numeral b"
  by (metis floor_divide_of_int_eq of_int_numeral of_int_1)
lemmas ilog10_numeral = ilog10.simps [of 0] ilog10.simps [of 1] ilog10.simps [of "Suc 0"]
  ilog10.simps [of "numeral k"] for k
lemmas str_nat_numeral = str_nat.simps [of 0] str_nat.simps [of 1] str_nat.simps [of "Suc 0"]
  str_nat.simps [of "numeral k"] for k
lemmas fmt_defs = str_format_def render_field_def format_spec_def opt_char_def skip_if_def
  is_align_def is_digit_def pad_def digits_val_def digit_val_def Let_def
lemmas prefix_defs = priv_prefix_def SI_PREFIXES_def mk_prefix_def

lemma render_default:
  "str_format default_format_str [(''value'', vs), (''prefix'', s)] = Inr (vs @ CHR '' '' # s)"
  by (simp add: fmt_defs default_format_str_def)

lemma render_default_exp:
  "str_format default_exp_format_str [(''value'', vs), (''exp_of_10'', x)] = Inr (vs @ CHR ''e'' # x)"
  by (simp add: fmt_defs default_exp_format_str_def)

lemma render_default_si_exp:
  "str_format default_si_exp_format_str [(''value'', vs), (''expof10'', x)] = Inr (vs @ CHR ''e'' # x)"
  by (simp add: fmt_defs default_si_exp_format_str_def)

lemma render_bad_spec:
  "str_format ''{value:d} {prefix}'' [(''value'', vs), (''prefix'', s)] = Inl ValueError"
  by (simp add: fmt_defs)

lemma priv_prefix_zero: "priv_prefix 0 = Inr []"
  by (simp add: prefix_defs)

lemma strip_empty: "py_strip [] = []"
  by (simp add: py_strip_def)

lemma substituted_4_78_k: "substituted ''4.78 k'' = ''e04e0.e07e08e0e3e0''"
  by (simp add: substituted_def SI_PREFIXES_def mk_prefix_def replace_prefix_def py_replace_def
      get_e_string_def str_int_def str_nat_numeral digit_char_def)

lemma float_1e27: "py_float ''1.0e-27'' = Inr (Finite (1 / 10 ^ 27))"
  by (simp add: py_float_def float_strip_def is_float_space_def float_literal_def number_literal_def
      mantissa_literal_def signed_digits_def is_exp_mark_def lower_char_def is_digit_def
      digits_val_def digit_val_def pow10_def Let_def)

subsection \<open>The prefix lookups\<close>

lemma in_table_iff:
  "(e mod 3 = 0 \<and> - 24 \<le> e \<and> e \<le> 24) =
   (e = - 24 \<or> e = - 21 \<or> e = - 18 \<or> e = - 15 \<or> e = - 12 \<or> e = - 9 \<or> e = - 6 \<or> e = - 3
    \<or> e = 0 \<or> e = 3 \<or> e = 6 \<or> e = 9 \<or> e = 12 \<or> e = 15 \<or> e = 18 \<or> e = 21 \<or> e = 24)"
  for e :: int
  by presburger

lemma priv_prefix_cases:
  "priv_prefix e =
     (if e = - 24 then Inr ''y'' else if e = - 21 then Inr ''z'' else if e = - 18 then Inr ''a''
      else if e = - 15 then Inr ''f'' else if e = - 12 then Inr ''p'' else if e = - 9 then Inr ''n''
      else if e = - 6 then Inr [CHR 0xB5] else if e = - 3 then Inr ''m'' else if e = 0 then Inr []
      else if e = 3 then Inr ''k'' else if e = 6 then Inr ''M'' else if e = 9 then Inr ''G''
      else if e = 12 then Inr ''T'' else if e = 15 then Inr ''P'' else if e = 18 then Inr ''E''
      else if e = 21 then Inr ''Z'' else if e = 24 then Inr ''Y'' else Inl ValueError)"
  by (simp add: prefix_defs)

lemma priv_prefix_outside: "24 < \<bar>e\<bar> \<Longrightarrow> priv_prefix e = Inl ValueError"
  by (simp add: priv_prefix_cases) arith

lemma split_exp_dvd: "3 dvd snd (split v p)" "3 dvd snd (priv_split v p)"
  by (simp_all add: split_def priv_split_def Let_def)

lemma prefix_outside: "3 dvd e \<Longrightarrow> 24 < \<bar>e\<bar> \<Longrightarrow> prefix e = Inl ValueError"
  by (auto simp add: prefix_def prefix_levels_def SI_PREFIX_UNITS_def Let_def)

lemma prefix_zero: "prefix 0 = Inr '' ''"
  by (simp add: prefix_def prefix_levels_def SI_PREFIX_UNITS_def)

lemma strip_space: "py_strip '' '' = []"
  by (simp add: py_strip_def is_space_def)

lemma priv_prefix_exact:
  "((\<exists>s. priv_prefix e = Inr s) \<longleftrightarrow> e mod 3 = 0 \<and> - 24 \<le> e \<and> e \<le> 24)
   \<and> (priv_prefix e = Inl ValueError \<longleftrightarrow> \<not> (e mod 3 = 0 \<and> - 24 \<le> e \<and> e \<le> 24))"
  unfolding in_table_iff by (simp add: priv_prefix_cases)


subsection \<open>What \<^verbatim>\<open>_split\<close> rounds\<close>

lemma priv_split_is_rounded: "\<exists>n. fst (priv_split v p) = of_int n / 10 ^ p"
proof (cases "v = 0")
  case True
  then have "fst (priv_split v p) = of_int 0 / 10 ^ p"
    by (simp add: priv_split_def)
  then show ?thesis ..
next
  case False
  then show ?thesis
    by (simp add: priv_split_def py_round_def Let_def)
qed

subsection \<open>Runs of the functions on the documented examples\<close>

text \<open>
  The steps of \<^verbatim>\<open>_split\<close> and \<^verbatim>\<open>split\<close> one at a time, so that a run on a given number
  evaluates each step once.
\<close>

lemma priv_split_steps:
  assumes "val \<noteq> 0"
    and "(if val < 0 then - val else val) = v"
    and "int_log10 v = lg"
    and "(if 0 < lg then lg div 3 * 3 else (- lg + 3) div 3 * (- 3)) = a"
    and "v * as_float (py_pow10 (- a)) = sc"
    and "(if 1000 \<le> sc then sc / 1000 else sc) = rn"
    and "(if 1000 \<le> sc then a + 3 else a) = ex"
    and "py_round (if val < 0 then rn * (- 1) else rn) precision = m"
  shows "priv_split val precision = (m, ex)"
  using assms by (auto simp add: priv_split_def Let_def)

lemma split_steps:
  assumes "val \<noteq> 0"
    and "(if val < 0 then - val else val) = v"
    and "int_log10 v = lg"
    and "(if 0 < lg then lg div 3 * 3 else (- lg + 3) div 3 * (- 3)) = a"
    and "v * as_float (py_pow10 (- a)) = sc"
    and "(if 1000 \<le> sc then sc / 1000 else sc) = rn"
    and "(if 1000 \<le> sc then a + 3 else a) = ex"
    and "(if val < 0 then rn * (- 1) else rn) = m"
  shows "split val precision = (m, ex)"
  using assms by (auto simp add: split_def Let_def)

lemma format_fixed_steps:
  assumes "nat (round_half_even (\<bar>x\<bar> * 10 ^ p)) = n"
    and "str_nat n = ds"
    and "replicate (Suc p - length ds) CHR ''0'' @ ds = padded"
  shows "format_fixed x p =
           (if x < 0 then ''-'' else [])
           @ take (length padded - p) padded
           @ (if p = 0 then [] else CHR ''.'' # drop (length padded - p) padded)"
  using assms by (auto simp add: format_fixed_def Let_def)

lemmas step_defs = int_log10_def ilog10_numeral py_pow10_def py_round_def round_half_even_def Let_def

lemma split_4781: "priv_split (4781123 / 1000) 2 = (239 / 50, 3)"
  by (rule priv_split_steps [where v = "4781123 / 1000" and lg = 3 and a = 3
        and sc = "4781123 / 1000000" and rn = "4781123 / 1000000"])
    (simp_all add: step_defs)

lemma split_3_93766: "priv_split (393766 / 100000) 2 = (197 / 50, 0)"
  by (rule priv_split_steps [where v = "393766 / 100000" and lg = 0 and a = "- 3"
        and sc = "393766 / 100" and rn = "393766 / 100000"])
    (simp_all add: step_defs)

lemma split_1e_27: "priv_split (1 / 10 ^ 27) 1 = (1, - 27)"
  by (rule priv_split_steps [where v = "1 / 10 ^ 27" and lg = "- 27" and a = "- 30"
        and sc = 1000 and rn = 1])
    (simp_all add: step_defs)

lemma split_1_55051e28: "priv_split (155051 * 10 ^ 23) 2 = (1551 / 100, 27)"
  by (rule priv_split_steps [where v = "155051 * 10 ^ 23" and lg = 28 and a = 27
        and sc = "155051 / 10000" and rn = "155051 / 10000"])
    (simp_all add: step_defs)

lemma split_999_96: "priv_split (99996 / 100) 1 = (1000, 0)"
  by (rule priv_split_steps [where v = "99996 / 100" and lg = 2 and a = 0
        and sc = "99996 / 100" and rn = "99996 / 100"])
    (simp_all add: step_defs)

lemma split_999_996: "priv_split (999996 / 1000) 2 = (1000, 0)"
  by (rule priv_split_steps [where v = "999996 / 1000" and lg = 2 and a = 0
        and sc = "999996 / 1000" and rn = "999996 / 1000"])
    (simp_all add: step_defs)

lemma legacy_split_0_04781: "split (4781 / 100000) 1 = (4781 / 100, - 3)"
  by (rule split_steps [where v = "4781 / 100000" and lg = "- 1" and a = "- 3"
        and sc = "4781 / 100" and rn = "4781 / 100"])
    (simp_all add: step_defs)

lemma legacy_split_3_93766: "split (393766 / 100000) 2 = (196883 / 50000, 0)"
  by (rule split_steps [where v = "393766 / 100000" and lg = 0 and a = "- 3"
        and sc = "393766 / 100" and rn = "393766 / 100000"])
    (simp_all add: step_defs)

lemma legacy_split_1e_27: "split (1 / 10 ^ 27) 1 = (1, - 27)"
  by (rule split_steps [where v = "1 / 10 ^ 27" and lg = "- 27" and a = "- 30"
        and sc = 1000 and rn = 1])
    (simp_all add: step_defs)

lemma legacy_split_1_55051e28: "split (155051 * 10 ^ 23) 2 = (155051 / 10000, 27)"
  by (rule split_steps [where v = "155051 * 10 ^ 23" and lg = 28 and a = 27
        and sc = "155051 / 10000" and rn = "155051 / 10000"])
    (simp_all add: step_defs)

lemmas digit_defs = round_half_even_def Let_def str_nat_numeral digit_char_def

lemma fixed_4_78: "format_fixed (239 / 50) 2 = ''4.78''"
  by (simp add: format_fixed_steps [where n = 478 and ds = "''478''" and padded = "''478''"] digit_defs)

lemma fixed_3_94: "format_fixed (197 / 50) 2 = ''3.94''"
  by (simp add: format_fixed_steps [where n = 394 and ds = "''394''" and padded = "''394''"] digit_defs)

lemma fixed_3_93766: "format_fixed (196883 / 50000) 2 = ''3.94''"
  by (simp add: format_fixed_steps [where n = 394 and ds = "''394''" and padded = "''394''"] digit_defs)

lemma fixed_1_0: "format_fixed 1 1 = ''1.0''"
  by (simp add: format_fixed_steps [where n = 10 and ds = "''10''" and padded = "''10''"] digit_defs)

lemma fixed_15_51: "format_fixed (1551 / 100) 2 = ''15.51''"
  by (simp add: format_fixed_steps [where n = 1551 and ds = "''1551''" and padded = "''1551''"] digit_defs)

lemma fixed_15_5051: "format_fixed (155051 / 10000) 2 = ''15.51''"
  by (simp add: format_fixed_steps [where n = 1551 and ds = "''1551''" and padded = "''1551''"] digit_defs)

lemma fixed_1000_0: "format_fixed 1000 1 = ''1000.0''"
  by (simp add: format_fixed_steps [where n = 10000 and ds = "''10000''" and padded = "''10000''"] digit_defs)

lemma fixed_Suc_0: "format_fixed 1 (Suc 0) = ''1.0''" "format_fixed 1000 (Suc 0) = ''1000.0''"
  using fixed_1_0 fixed_1000_0 by simp_all

lemma signed_exp_values: "signed_exp 27 = ''+27''" "signed_exp (- 27) = ''-27''" "signed_exp 3 = ''+3''"
  "signed_exp 0 = ''0''"
  by (simp_all add: signed_exp_def str_int_def str_nat_numeral digit_char_def)

lemmas run_defs = priv_prefix_cases render_default render_default_exp render_default_si_exp
  render_bad_spec py_strip_def is_space_def signed_exp_values
  fixed_4_78 fixed_3_94 fixed_3_93766 fixed_1_0 fixed_15_51 fixed_15_5051 fixed_1000_0 fixed_Suc_0

lemma with_format_4781:
  "with_format (4781123 / 1000) 2 default_format_str default_exp_format_str = Inr ''4.78 k''"
  unfolding with_format_def split_4781 by (simp add: run_defs)

lemma with_format_3_93766:
  "with_format (393766 / 100000) 2 default_format_str default_exp_format_str = Inr ''3.94 ''"
  unfolding with_format_def split_3_93766 by (simp add: run_defs)

lemma with_format_999_96:
  "with_format (99996 / 100) 1 default_format_str default_exp_format_str = Inr ''1000.0 ''"
  unfolding with_format_def split_999_96 by (simp add: run_defs)

lemma with_format_1e_27:
  "with_format (1 / 10 ^ 27) 1 default_format_str default_exp_format_str = Inr ''1.0e-27''"
  unfolding with_format_def split_1e_27 by (simp add: run_defs)

lemma with_format_1_55051e28:
  "with_format (155051 * 10 ^ 23) 2 default_format_str default_exp_format_str = Inr ''15.51e+27''"
  unfolding with_format_def split_1_55051e28 by (simp add: run_defs)

lemma si_format_3_93766:
  "si_format (393766 / 100000) 2 default_format_str default_si_exp_format_str = Inr ''3.94 ''"
  unfolding si_format_def legacy_split_3_93766 by (simp add: run_defs prefix_zero)

lemma si_format_1e_27:
  "si_format (1 / 10 ^ 27) 1 default_format_str default_si_exp_format_str = Inr ''1.0e-27''"
  unfolding si_format_def legacy_split_1e_27 by (simp add: run_defs prefix_outside)

lemma si_format_1_55051e28:
  "si_format (155051 * 10 ^ 23) 2 default_format_str default_si_exp_format_str = Inr ''15.51e+27''"
  unfolding si_format_def legacy_split_1_55051e28 by (simp add: run_defs prefix_outside)

lemma si_parse_4_78_k: "si_parse ''4.78 k'' = Inl KeyError"
  by code_simp

lemma si_parse_47_8_m: "si_parse ''47.8 m'' = Inl KeyError"
  by code_simp

lemma si_parse_1e_27: "si_parse ''1.0e-27'' = Inr (Finite (1 / 10 ^ 27))"
  by code_simp

lemma si_parse_signed_fraction:
  "py_float ''-.5'' = Inr (Finite (- (1 / 2))) \<and> si_parse ''-.5'' = Inl ValueError"
  by code_simp

lemma expof10_symbols:
  "map (\<lambda>c. si_prefix_expof10 [c]) SI_PREFIX_UNITS =
     map Inr [- 24, - 21, - 18, - 15, - 12, - 9, - 6, - 3, 0, 3, 6, 9, 12, 15, 18, 21, 24]"
  by (simp add: si_prefix_expof10_def py_index_def prefix_levels_def SI_PREFIX_UNITS_def)

subsection \<open>The range of the decomposition\<close>

text \<open>
  In exact arithmetic, for every value other than 0: the exponent is a multiple of 3;
  the module's \<^verbatim>\<open>split\<close> returns a mantissa \<open>m\<close> with \<open>1 \<le> \<bar>m\<bar> < 1000\<close> that gives the
  value back exactly; the package's \<^verbatim>\<open>_split\<close> returns that mantissa rounded, so
  \<open>1 \<le> \<bar>m\<bar> \<le> 1000\<close>, within half a unit of the last digit kept.  The bound 1000 is
  reached (lemma \<open>split_999_96\<close>).
\<close>

lemma ilog10_bounds: "0 < n \<Longrightarrow> 10 ^ ilog10 n \<le> n \<and> n < 10 ^ Suc (ilog10 n)"
proof (induction n rule: ilog10.induct)
  case (1 n)
  show ?case
  proof (cases "n < 10")
    case True
    with "1.prems" show ?thesis
      by (simp add: ilog10.simps [of n])
  next
    case False
    then have pos: "0 < n div 10"
      by simp
    from "1.IH" [OF False pos]
    have ih: "10 ^ ilog10 (n div 10) \<le> n div 10" "n div 10 < 10 ^ Suc (ilog10 (n div 10))"
      by simp_all
    have eq: "ilog10 n = Suc (ilog10 (n div 10))"
      using False by (simp add: ilog10.simps [of n])
    have lo: "10 ^ Suc (ilog10 (n div 10)) \<le> n"
      using ih(1) by (simp add: less_eq_div_iff_mult_less_eq) 
    have hi: "n < 10 ^ Suc (Suc (ilog10 (n div 10)))"
      using ih(2) by (simp add: div_less_iff_less_mult)
    show ?thesis
      using lo hi by (simp add: eq)
  qed
qed

lemma floor_log10_bounds:
  fixes w :: rat
  assumes "1 \<le> w"
  shows "10 ^ ilog10 (nat \<lfloor>w\<rfloor>) \<le> w \<and> w < 10 ^ Suc (ilog10 (nat \<lfloor>w\<rfloor>))"
proof -
  let ?n = "nat \<lfloor>w\<rfloor>"
  have fl: "1 \<le> \<lfloor>w\<rfloor>"
    using assms by (simp add: le_floor_iff)
  then have npos: "0 < ?n"
    by simp
  have n_le: "rat_of_nat ?n \<le> w"
    using fl by (simp add: of_nat_nat)
  have "w < rat_of_int \<lfloor>w\<rfloor> + 1"
    using floor_correct [of w] by simp
  then have w_lt: "w < rat_of_nat ?n + 1"
    using fl by (simp add: of_nat_nat)
  from ilog10_bounds [OF npos]
  have b1: "10 ^ ilog10 ?n \<le> ?n" and b2: "Suc ?n \<le> 10 ^ Suc (ilog10 ?n)"
    by simp_all
  have "(10::rat) ^ ilog10 ?n = rat_of_nat (10 ^ ilog10 ?n)"
    by simp
  also have "\<dots> \<le> rat_of_nat ?n"
    using b1 by (rule of_nat_mono)
  also have "\<dots> \<le> w"
    by (rule n_le)
  finally have lo: "10 ^ ilog10 ?n \<le> w" .
  have "w < rat_of_nat (Suc ?n)"
    using w_lt by simp
  also have "\<dots> \<le> rat_of_nat (10 ^ Suc (ilog10 ?n))"
    using b2 by (rule of_nat_mono)
  also have "\<dots> = 10 ^ Suc (ilog10 ?n)"
    by simp
  finally have hi: "w < 10 ^ Suc (ilog10 ?n)" .
  show ?thesis
    using lo hi by (intro conjI)
qed

lemma int_log10_ge_1:
  assumes "1 \<le> v"
  obtains k where "int_log10 v = int k" "10 ^ k \<le> v" "v < 10 ^ Suc k"
  using floor_log10_bounds [OF assms] assms by (simp add: int_log10_def)

lemma int_log10_lt_1:
  assumes "0 < v" "v < 1"
  obtains k where "int_log10 v = - int k" "10 ^ k \<le> 1 / v" "1 / v < 10 ^ Suc k"
proof -
  have "1 \<le> 1 / v"
    using assms by simp
  from floor_log10_bounds [OF this] assms show ?thesis
    using that by (simp add: int_log10_def)
qed

lemma py_pow10_int: "as_float (py_pow10 (int n)) = 10 ^ n"
  by (simp add: py_pow10_def)

lemma py_pow10_neg_int: "as_float (py_pow10 (- int n)) = 1 / 10 ^ n"
  by (cases "n = 0") (simp_all add: py_pow10_def)

lemma pow10_int: "pow10 (int n) = 10 ^ n"
  by (simp add: pow10_def)

lemma pow10_neg_int: "pow10 (- int n) = 1 / 10 ^ n"
  by (cases "n = 0") (simp_all add: pow10_def)

lemma split_ge_1:
  assumes "1 \<le> v"
  shows "\<exists>m n. split v p = (m, int (3 * n)) \<and> 1 \<le> m \<and> m < 1000 \<and> m * 10 ^ (3 * n) = v"
proof -
  from assms have pos: "v \<noteq> 0" "\<not> v < 0"
    by simp_all
  obtain k where k: "int_log10 v = int k" "10 ^ k \<le> v" "v < 10 ^ Suc k"
    using int_log10_ge_1 [OF assms] by blast
  show ?thesis
  proof (cases "k = 0")
    case True
    have "split v p = (v, 0)"
      by (rule split_steps [where v = v and lg = 0 and a = "- 3" and sc = "v * 1000" and rn = v])
        (use pos assms k True in \<open>simp_all add: py_pow10_def\<close>)
    moreover have "v < 10"
      using k(3) True by simp
    ultimately have "split v p = (v, int (3 * 0)) \<and> 1 \<le> v \<and> v < 1000 \<and> v * 10 ^ (3 * 0) = v"
      using assms by simp
    then show ?thesis
      by blast
  next
    case False
    define q where "q = k div 3"
    have q: "3 * q \<le> k" "Suc k \<le> 3 * q + 3"
      by (simp_all add: q_def)
    define d :: rat where "d = 10 ^ (3 * q)"
    have dpos: "0 < d"
      by (simp add: d_def)
    have "d \<le> 10 ^ k"
      unfolding d_def using q(1) by (intro power_increasing) simp_all
    then have lo: "d \<le> v"
      using k(2) by simp
    have "(10::rat) ^ Suc k \<le> 10 ^ (3 * q + 3)"
      using q(2) by (intro power_increasing) simp_all
    also have "\<dots> = 1000 * d"
      by (simp add: d_def power_add)
    finally have hi: "v < 1000 * d"
      using k(3) by simp
    have m1: "1 \<le> v / d"
      using lo dpos by (simp add: pos_le_divide_eq)
    have m2: "v / d < 1000"
      using hi dpos by (simp add: pos_divide_less_eq)
    have a: "(if 0 < int k then int k div 3 * 3 else (- int k + 3) div 3 * (- 3)) = int (3 * q)"
      using False by (simp add: q_def zdiv_int)
    have "split v p = (v / d, int (3 * q))"
      by (rule split_steps [where v = v and lg = "int k" and a = "int (3 * q)"
            and sc = "v / d" and rn = "v / d"])
        (use pos k(1) a m2 in \<open>simp_all add: py_pow10_neg_int d_def del: of_nat_mult\<close>)
    moreover have "v / d * 10 ^ (3 * q) = v"
      using dpos by (simp add: d_def)
    ultimately show ?thesis
      using m1 m2 by blast
  qed
qed

lemma split_lt_1:
  assumes "0 < v" "v < 1"
  shows "\<exists>m n. split v p = (m, - int (3 * n)) \<and> 1 \<le> m \<and> m < 1000 \<and> m = v * 10 ^ (3 * n)"
proof -
  from assms have pos: "v \<noteq> 0" "\<not> v < 0"
    by simp_all
  obtain k where k: "int_log10 v = - int k" "10 ^ k \<le> 1 / v" "1 / v < 10 ^ Suc k"
    using int_log10_lt_1 [OF assms] by blast
  define q where "q = (k + 3) div 3"
  have q: "Suc k \<le> 3 * q" "3 * q \<le> k + 3" "0 < q"
    by (simp_all add: q_def)
  define d :: rat where "d = 10 ^ (3 * q)"
  have "(10::rat) ^ Suc k \<le> d"
    unfolding d_def using q(1) by (intro power_increasing) simp_all
  then have "1 / v < d"
    using k(3) by simp
  then have lo: "1 < v * d"
    using assms(1) by (simp add: pos_divide_less_eq mult.commute)
  have kv: "10 ^ k * v \<le> 1"
    using k(2) assms(1) by (simp add: pos_le_divide_eq)
  have "d \<le> 10 ^ (k + 3)"
    unfolding d_def using q(2) by (intro power_increasing) simp_all
  also have "\<dots> = 1000 * 10 ^ k"
    by (simp add: power_add)
  finally have "v * d \<le> v * (1000 * 10 ^ k)"
    using assms(1) by simp
  also have "\<dots> = 1000 * (10 ^ k * v)"
    by simp
  also have "\<dots> \<le> 1000"
    using kv by simp
  finally have hi: "v * d \<le> 1000" .
  have a: "(if 0 < - int k then - int k div 3 * 3 else (- (- int k) + 3) div 3 * (- 3))
           = - int (3 * q)"
    by (simp add: q_def zdiv_int)
  show ?thesis
  proof (cases "v * d = 1000")
    case True
    have d3: "d = 1000 * 10 ^ (3 * (q - 1))"
    proof -
      have "3 * q = 3 * (q - 1) + 3"
        using q(3) by simp
      then have "d = 10 ^ (3 * (q - 1) + 3)"
        by (simp only: d_def)
      then show ?thesis
        by (simp add: power_add)
    qed
    have e: "- int (3 * q) + 3 = - int (3 * (q - 1))"
      using q(3) by simp
    have "split v p = (1, - int (3 * (q - 1)))"
      by (rule split_steps [where v = v and lg = "- int k" and a = "- int (3 * q)"
            and sc = "v * d" and rn = 1])
        (use pos k(1) a True e in \<open>simp_all add: py_pow10_int d_def del: of_nat_mult\<close>)
    moreover have "1 = v * 10 ^ (3 * (q - 1))"
      using True by (simp add: d3)
    ultimately show ?thesis
      by (intro exI [of _ 1] exI [of _ "q - 1"]) simp
  next
    case False
    with hi have lt: "v * d < 1000"
      by simp
    have "split v p = (v * d, - int (3 * q))"
      by (rule split_steps [where v = v and lg = "- int k" and a = "- int (3 * q)"
            and sc = "v * d" and rn = "v * d"])
        (use pos k(1) a lt in \<open>simp_all add: py_pow10_int d_def del: of_nat_mult\<close>)
    then show ?thesis
      using lo lt by (intro exI [of _ "v * d"] exI [of _ q]) (simp add: d_def)
  qed
qed

lemma split_unfold:
  assumes "val \<noteq> 0"
  shows "split val p =
    (let v = (if val < 0 then - val else val);
         lg = int_log10 v;
         a = (if 0 < lg then lg div 3 * 3 else (- lg + 3) div 3 * (- 3));
         sc = v * as_float (py_pow10 (- a));
         rn = (if 1000 \<le> sc then sc / 1000 else sc)
     in (if val < 0 then rn * (- 1) else rn, if 1000 \<le> sc then a + 3 else a))"
  unfolding Let_def
  by (rule split_steps [OF assms refl refl refl refl refl refl refl])

lemma priv_split_unfold:
  assumes "val \<noteq> 0"
  shows "priv_split val p =
    (let v = (if val < 0 then - val else val);
         lg = int_log10 v;
         a = (if 0 < lg then lg div 3 * 3 else (- lg + 3) div 3 * (- 3));
         sc = v * as_float (py_pow10 (- a));
         rn = (if 1000 \<le> sc then sc / 1000 else sc)
     in (py_round (if val < 0 then rn * (- 1) else rn) p, if 1000 \<le> sc then a + 3 else a))"
  unfolding Let_def
  by (rule priv_split_steps [OF assms refl refl refl refl refl refl refl])

lemma py_round_0: "py_round 0 p = 0"
  by (simp add: py_round_def round_half_even_def)

lemma priv_split_rounds_split:
  "priv_split v p = (py_round (fst (split v p)) p, snd (split v p))"
proof (cases "v = 0")
  case True
  then show ?thesis
    by (simp add: priv_split_def split_def py_round_0)
next
  case False
  show ?thesis
    unfolding priv_split_unfold [OF False] split_unfold [OF False] Let_def fst_conv snd_conv ..
qed

lemma split_minus:
  assumes "0 < v"
  shows "split (- v) p = (- fst (split v p), snd (split v p))"
proof -
  have nz: "v \<noteq> 0" "- v \<noteq> 0" and sg: "\<not> v < 0" "- v < 0"
    using assms by simp_all
  show ?thesis
    unfolding split_unfold [OF nz(1)] split_unfold [OF nz(2)] Let_def fst_conv snd_conv
    by (simp only: sg if_True if_False minus_minus) simp
qed

lemma split_pos_range:
  assumes "0 < v"
  shows "3 dvd snd (split v p) \<and> 1 \<le> fst (split v p) \<and> fst (split v p) < 1000
         \<and> fst (split v p) * pow10 (snd (split v p)) = v"
proof (cases "1 \<le> v")
  case True
  then obtain m n where r: "split v p = (m, int (3 * n))" "1 \<le> m" "m < 1000" "m * 10 ^ (3 * n) = v"
    using split_ge_1 by blast
  have "3 dvd int (3 * n)"
    by simp
  with r show ?thesis
    by (simp add: pow10_int del: of_nat_mult)
next
  case False
  with assms obtain m n where
    r: "split v p = (m, - int (3 * n))" "1 \<le> m" "m < 1000" "m = v * 10 ^ (3 * n)"
    using split_lt_1 [of v p] by auto
  have "3 dvd - int (3 * n)"
    by simp
  with r show ?thesis
    by (simp add: pow10_neg_int del: of_nat_mult)
qed

lemma split_range:
  assumes "v \<noteq> 0"
  shows "3 dvd snd (split v p) \<and> 1 \<le> \<bar>fst (split v p)\<bar> \<and> \<bar>fst (split v p)\<bar> < 1000
         \<and> fst (split v p) * pow10 (snd (split v p)) = v"
proof (cases "0 < v")
  case True
  from split_pos_range [OF this, of p] show ?thesis
    by simp
next
  case False
  with assms have "0 < - v"
    by simp
  from split_pos_range [OF this, of p] split_minus [OF this, of p] show ?thesis
    by simp
qed

lemma round_half_even_ge:
  assumes "of_int n \<le> x"
  shows "n \<le> round_half_even x"
proof -
  have "n \<le> \<lfloor>x\<rfloor>"
    using assms by (simp add: le_floor_iff)
  then show ?thesis
    by (auto simp add: round_half_even_def Let_def)
qed

lemma round_half_even_le:
  assumes "x \<le> of_int n"
  shows "round_half_even x \<le> n"
proof (cases "x = of_int n")
  case True
  then show ?thesis
    by (simp add: round_half_even_def)
next
  case False
  with assms have "x < of_int n"
    by simp
  then have "\<lfloor>x\<rfloor> < n"
    by (simp add: floor_less_iff)
  then show ?thesis
    by (auto simp add: round_half_even_def Let_def)
qed

lemma round_half_even_error: "\<bar>of_int (round_half_even x) - x\<bar> \<le> 1 / 2"
proof -
  have "of_int \<lfloor>x\<rfloor> \<le> x" "x < of_int \<lfloor>x\<rfloor> + 1"
    using floor_correct [of x] by simp_all
  then show ?thesis
    by (auto simp add: round_half_even_def Let_def abs_le_iff)
qed

lemma py_round_ge:
  assumes "of_int n \<le> m"
  shows "of_int n \<le> py_round m p"
proof -
  have "of_int (n * 10 ^ p) \<le> m * 10 ^ p"
    using assms by simp
  then have "n * 10 ^ p \<le> round_half_even (m * 10 ^ p)"
    by (rule round_half_even_ge)
  then have "rat_of_int (n * 10 ^ p) \<le> of_int (round_half_even (m * 10 ^ p))"
    by (simp only: of_int_le_iff)
  then show ?thesis
    by (simp add: py_round_def pos_le_divide_eq)
qed

lemma py_round_le:
  assumes "m \<le> of_int n"
  shows "py_round m p \<le> of_int n"
proof -
  have "m * 10 ^ p \<le> of_int (n * 10 ^ p)"
    using assms by simp
  then have "round_half_even (m * 10 ^ p) \<le> n * 10 ^ p"
    by (rule round_half_even_le)
  then have "rat_of_int (round_half_even (m * 10 ^ p)) \<le> of_int (n * 10 ^ p)"
    by (simp only: of_int_le_iff)
  then show ?thesis
    by (simp add: py_round_def pos_divide_le_eq)
qed

lemma py_round_error: "\<bar>py_round m p - m\<bar> \<le> 1 / (2 * 10 ^ p)"
proof -
  have "py_round m p - m = (of_int (round_half_even (m * 10 ^ p)) - m * 10 ^ p) / 10 ^ p"
    by (simp add: py_round_def diff_divide_distrib)
  then have "\<bar>py_round m p - m\<bar> = \<bar>of_int (round_half_even (m * 10 ^ p)) - m * 10 ^ p\<bar> / 10 ^ p"
    by (simp add: abs_divide)
  also have "\<dots> \<le> (1 / 2) / 10 ^ p"
    using round_half_even_error [of "m * 10 ^ p"] by (intro divide_right_mono) simp_all
  finally show ?thesis
    by simp
qed

lemma pow10_pos: "0 < pow10 e"
  by (simp add: pow10_def)

lemma priv_split_range:
  assumes "v \<noteq> 0"
  shows "3 dvd snd (priv_split v p)
         \<and> 1 \<le> \<bar>fst (priv_split v p)\<bar> \<and> \<bar>fst (priv_split v p)\<bar> \<le> 1000
         \<and> \<bar>fst (priv_split v p) * pow10 (snd (priv_split v p)) - v\<bar>
             \<le> pow10 (snd (priv_split v p)) / (2 * 10 ^ p)"
proof -
  define s where "s = fst (split v p)"
  define e where "e = snd (split v p)"
  have r: "3 dvd e" "1 \<le> \<bar>s\<bar>" "\<bar>s\<bar> < 1000" "s * pow10 e = v"
    using split_range [OF assms, of p] by (simp_all add: s_def e_def)
  have ps: "priv_split v p = (py_round s p, e)"
    by (simp add: priv_split_rounds_split s_def e_def)
  have lo: "1 \<le> \<bar>py_round s p\<bar>"
  proof (cases "0 \<le> s")
    case True
    with r(2) have "of_int 1 \<le> s"
      by simp
    then have "of_int 1 \<le> py_round s p"
      by (rule py_round_ge)
    then show ?thesis
      by simp
  next
    case False
    with r(2) have "s \<le> of_int (- 1)"
      by simp
    then have "py_round s p \<le> of_int (- 1)"
      by (rule py_round_le)
    then show ?thesis
      by simp
  qed
  have b: "of_int (- 1000) \<le> s" "s \<le> of_int 1000"
    using r(3) by simp_all
  have "of_int (- 1000) \<le> py_round s p"
    using b(1) by (rule py_round_ge)
  moreover have "py_round s p \<le> of_int 1000"
    using b(2) by (rule py_round_le)
  ultimately have hi: "\<bar>py_round s p\<bar> \<le> 1000"
    by simp
  have "py_round s p * pow10 e - v = (py_round s p - s) * pow10 e"
    using r(4) by (simp add: algebra_simps)
  then have "\<bar>py_round s p * pow10 e - v\<bar> = \<bar>py_round s p - s\<bar> * pow10 e"
    using pow10_pos [of e] by (simp add: abs_mult)
  also have "\<dots> \<le> 1 / (2 * 10 ^ p) * pow10 e"
    using py_round_error [of s p] pow10_pos [of e] by (intro mult_right_mono) simp_all
  finally have err: "\<bar>py_round s p * pow10 e - v\<bar> \<le> pow10 e / (2 * 10 ^ p)"
    by simp
  show ?thesis
    using r(1) lo hi err by (simp add: ps)
qed

section \<open>The claims\<close>

text \<open>
  Claim C1 (round trip).  The claim asks that parsing the text \<^verbatim>\<open>with_format\<close> returns on
  its first template gives the value back within the tolerance.  In the code no text
  that \<^verbatim>\<open>with_format\<close> returns is parsed at all: \<^verbatim>\<open>parse\<close> raises \<^verbatim>\<open>ValueError\<close> on it.
  For 4781.123 at precision 2 the text is \<^verbatim>\<open>4.78 k\<close>.
\<close>

theorem formatted_text_does_not_parse:
  "with_format v p f e = Inr s \<Longrightarrow> parse s = Inl ValueError"
  by (rule parse_raises)

theorem formatted_text_does_not_parse_witness:
  "with_format (4781123 / 1000) 2 default_format_str default_exp_format_str = Inr ''4.78 k''
   \<and> parse ''4.78 k'' = Inl ValueError"
  using formatted_text_does_not_parse [OF with_format_4781] with_format_4781 by simp

text \<open>
  Claim C2 (prefixed text).  The claim asks for \<^verbatim>\<open>parse("4.78 k") == 4780.0\<close> and
  \<^verbatim>\<open>parse("47.8 m")\<close> near 0.0478.  In the code the text \<^verbatim>\<open>4.78 k\<close> becomes
  \<^verbatim>\<open>e04e0.e07e08e0e3e0\<close> before \<^verbatim>\<open>float\<close> sees it, and both calls raise \<^verbatim>\<open>ValueError\<close>.
  The module's \<^verbatim>\<open>si_parse\<close> matches both texts with \<^verbatim>\<open>CRE_SI_NUMBER\<close> and raises \<^verbatim>\<open>KeyError\<close>
  at \<^verbatim>\<open>d["number"]\<close>, a group the pattern does not have.
\<close>

theorem parse_prefixed_text_raises:
  "substituted ''4.78 k'' = ''e04e0.e07e08e0e3e0''
   \<and> parse ''4.78 k'' = Inl ValueError \<and> parse ''47.8 m'' = Inl ValueError
   \<and> si_parse ''4.78 k'' = Inl KeyError \<and> si_parse ''47.8 m'' = Inl KeyError"
  by (simp add: substituted_4_78_k parse_raises si_parse_4_78_k si_parse_47_8_m)

text \<open>
  Claim C3 (decomposition bounds).  The claim asks that the mantissa stays below 1000 in
  absolute value, and that \<^verbatim>\<open>_split(999.96, 1)\<close> gives mantissa 1.0 with exponent 3.  In
  the code the comparison with 1000 comes before the rounding: the scaled value 999.96
  passes it, \<^verbatim>\<open>round\<close> makes it 1000.0, and the result is mantissa 1000.0 with exponent
  0, which \<^verbatim>\<open>with_format\<close> prints as \<^verbatim>\<open>1000.0\<close> and a space.  What holds for every value
  other than 0 is lemma \<open>priv_split_range\<close>: the mantissa is between 1 and 1000, both
  included.
\<close>

theorem priv_split_rounds_up_to_1000:
  "priv_split (99996 / 100) 1 = (1000, 0)
   \<and> with_format (99996 / 100) 1 default_format_str default_exp_format_str = Inr ''1000.0 ''"
  using split_999_96 with_format_999_96 by simp

text \<open>
  Claim C4 (rounding policy).  The claim asks that the returned mantissa is rounded to
  the precision, and scaled again when the rounding reaches 1000.  The module's
  \<^verbatim>\<open>split\<close> returns the scaled value with all its digits, 47.81 for 0.04781 at precision
  1; the package's \<^verbatim>\<open>_split\<close> rounds (lemma \<open>priv_split_is_rounded\<close>) and keeps the 1000
  that the rounding of 999.996 at precision 2 gives.  Lemma \<open>split_range\<close> is what the
  module's \<^verbatim>\<open>split\<close> does keep: a mantissa from 1 up to, not including, 1000.
\<close>

theorem split_returns_unrounded:
  "split (4781 / 100000) 1 = (4781 / 100, - 3) \<and> priv_split (999996 / 1000) 2 = (1000, 0)"
  using legacy_split_0_04781 split_999_996 by simp

text \<open>
  Claim C5 (bare numbers).  The claim asks that a text in plain or exponent notation
  parses to its float value, with \<^verbatim>\<open>parse("1.0e-27") == 1e-27\<close>.  \<^verbatim>\<open>float\<close> reads that text
  as \<open>10^-27\<close>, and the package's \<^verbatim>\<open>parse\<close> raises \<^verbatim>\<open>ValueError\<close> on it.  The module's
  \<^verbatim>\<open>si_parse\<close> matches the text with its first pattern and returns the float; its
  patterns take a sign only in front of integer digits, so it rejects \<^verbatim>\<open>-.5\<close>, which
  \<^verbatim>\<open>float\<close> reads.
\<close>

theorem parse_bare_number_raises:
  "py_float ''1.0e-27'' = Inr (Finite (1 / 10 ^ 27)) \<and> parse ''1.0e-27'' = Inl ValueError
   \<and> si_parse ''1.0e-27'' = Inr (Finite (1 / 10 ^ 27))
   \<and> py_float ''-.5'' = Inr (Finite (- (1 / 2))) \<and> si_parse ''-.5'' = Inl ValueError"
  using float_1e27 parse_raises si_parse_1e_27 si_parse_signed_fraction by simp

text \<open>
  Claim C6 (exact lookup).  The claim asks that the lookup raises for every exponent
  that is not one of the 17 in the table, 4 and 30 among them.  The package's \<^verbatim>\<open>_prefix\<close>
  does (lemma \<open>priv_prefix_exact\<close>).  The module's \<^verbatim>\<open>prefix\<close> divides the exponent by 3
  first, rounding down: it returns \<^verbatim>\<open>k\<close> for 4 and \<^verbatim>\<open>Y\<close> for 26, and raises for 30.
\<close>

theorem prefix_quantizes:
  "prefix 4 = Inr ''k'' \<and> prefix 26 = Inr ''Y'' \<and> prefix 30 = Inl ValueError
   \<and> priv_prefix 4 = Inl ValueError \<and> priv_prefix 30 = Inl ValueError"
  by (simp add: prefix_def prefix_levels_def SI_PREFIX_UNITS_def priv_prefix_cases)

text \<open>
  Claim C7 (exponential fallback).  When the exponent of the decomposition is beyond 24
  in absolute value, both formatters return the exponential template filled with the
  fixed-point text of the mantissa and the exponent with its sign, \<^verbatim>\<open>+\<close> when positive
  and \<^verbatim>\<open>-\<close> when negative: \<^verbatim>\<open>1.0e-27\<close> for \<open>10^-27\<close> at precision 1 and \<^verbatim>\<open>15.51e+27\<close> for
  \<open>1.55051 * 10^28\<close> at precision 2.  The lookup error does not leave the formatter.

  The statement is for the values and precisions on which the code reaches the lookup.
  For a value of size \<open>10^-306\<close> or less the line \<^verbatim>\<open>value *= 10 ** (-exp_of_10)\<close> computes
  \<^verbatim>\<open>10 ** 309\<close> or more, an \<^verbatim>\<open>int\<close> too large to convert to \<^verbatim>\<open>float\<close>, and \<^verbatim>\<open>_split\<close> and \<^verbatim>\<open>split\<close>
  raise \<^verbatim>\<open>OverflowError\<close> before any lookup; for a precision of \<open>2^31\<close> or more the
  fixed-point formatting raises \<^verbatim>\<open>ValueError\<close> (precision too big) outside the \<^verbatim>\<open>try\<close>
  block.  The model has neither path, so the hypotheses keep to sizes from \<open>10^-305\<close> to
  \<open>10^308\<close>, which ends the range of finite floats, and to precisions below \<open>2^31\<close>.
\<close>

theorem exponential_fallback:
  "(1 / 10 ^ 305 \<le> \<bar>v\<bar> \<and> \<bar>v\<bar> \<le> 10 ^ 308 \<and> p < 2 ^ 31 \<and> 24 < \<bar>snd (priv_split v p)\<bar> \<longrightarrow>
      with_format v p f e =
        str_format e [(''value'', format_fixed (fst (priv_split v p)) p),
                      (''exp_of_10'', signed_exp (snd (priv_split v p)))])
   \<and> (1 / 10 ^ 305 \<le> \<bar>v\<bar> \<and> \<bar>v\<bar> \<le> 10 ^ 308 \<and> p < 2 ^ 31 \<and> 24 < \<bar>snd (split v p)\<bar> \<longrightarrow>
      si_format v p f e =
        str_format e [(''value'', format_fixed (fst (split v p)) p),
                      (''expof10'', signed_exp (snd (split v p)))])
   \<and> with_format (1 / 10 ^ 27) 1 default_format_str default_exp_format_str = Inr ''1.0e-27''
   \<and> with_format (155051 * 10 ^ 23) 2 default_format_str default_exp_format_str = Inr ''15.51e+27''
   \<and> si_format (1 / 10 ^ 27) 1 default_format_str default_si_exp_format_str = Inr ''1.0e-27''
   \<and> si_format (155051 * 10 ^ 23) 2 default_format_str default_si_exp_format_str = Inr ''15.51e+27''
   \<and> signed_exp x = (if 0 < x then CHR ''+'' # str_nat (nat x)
                      else if x < 0 then CHR ''-'' # str_nat (nat (- x)) else ''0'')"
proof -
  have c: "signed_exp x = (if 0 < x then CHR ''+'' # str_nat (nat x)
                      else if x < 0 then CHR ''-'' # str_nat (nat (- x)) else ''0'')"
    by (simp add: signed_exp_def str_int_def str_nat.simps [of 0] digit_char_def)
  have a: "1 / 10 ^ 305 \<le> \<bar>v\<bar> \<and> \<bar>v\<bar> \<le> 10 ^ 308 \<and> p < 2 ^ 31 \<and> 24 < \<bar>snd (priv_split v p)\<bar> \<longrightarrow>
      with_format v p f e =
        str_format e [(''value'', format_fixed (fst (priv_split v p)) p),
                      (''exp_of_10'', signed_exp (snd (priv_split v p)))]"
  proof
    assume "1 / 10 ^ 305 \<le> \<bar>v\<bar> \<and> \<bar>v\<bar> \<le> 10 ^ 308 \<and> p < 2 ^ 31 \<and> 24 < \<bar>snd (priv_split v p)\<bar>"
    then have h: "24 < \<bar>snd (priv_split v p)\<bar>"
      by blast
    then have "priv_prefix (snd (priv_split v p)) = Inl ValueError"
      by (rule priv_prefix_outside)
    moreover have "snd (priv_split v p) \<noteq> 0"
      using h by auto
    ultimately show "with_format v p f e =
        str_format e [(''value'', format_fixed (fst (priv_split v p)) p),
                      (''exp_of_10'', signed_exp (snd (priv_split v p)))]"
      by (simp add: with_format_def case_prod_beta)
  qed
  have b: "1 / 10 ^ 305 \<le> \<bar>v\<bar> \<and> \<bar>v\<bar> \<le> 10 ^ 308 \<and> p < 2 ^ 31 \<and> 24 < \<bar>snd (split v p)\<bar> \<longrightarrow>
      si_format v p f e =
        str_format e [(''value'', format_fixed (fst (split v p)) p),
                      (''expof10'', signed_exp (snd (split v p)))]"
  proof
    assume "1 / 10 ^ 305 \<le> \<bar>v\<bar> \<and> \<bar>v\<bar> \<le> 10 ^ 308 \<and> p < 2 ^ 31 \<and> 24 < \<bar>snd (split v p)\<bar>"
    then have h: "24 < \<bar>snd (split v p)\<bar>"
      by blast
    have "prefix (snd (split v p)) = Inl ValueError"
      using split_exp_dvd(1) h by (rule prefix_outside)
    then show "si_format v p f e =
        str_format e [(''value'', format_fixed (fst (split v p)) p),
                      (''expof10'', signed_exp (snd (split v p)))]"
      by (simp add: si_format_def case_prod_beta)
  qed
  show ?thesis
    using a b with_format_1e_27 with_format_1_55051e28 si_format_1e_27 si_format_1_55051e28 c
    by (intro conjI)
qed

theorem exponential_fallback_witness:
  "(1 / 10 ^ 305 \<le> \<bar>1 / 10 ^ 27 :: rat\<bar> \<and> \<bar>1 / 10 ^ 27 :: rat\<bar> \<le> 10 ^ 308 \<and> (1::nat) < 2 ^ 31
    \<and> 24 < \<bar>snd (priv_split (1 / 10 ^ 27) 1)\<bar>)
   \<and> (1 / 10 ^ 305 \<le> \<bar>155051 * 10 ^ 23 :: rat\<bar> \<and> \<bar>155051 * 10 ^ 23 :: rat\<bar> \<le> 10 ^ 308
    \<and> (2::nat) < 2 ^ 31 \<and> 24 < \<bar>snd (split (155051 * 10 ^ 23) 2)\<bar>)
   \<and> with_format (1 / 10 ^ 27) 1 ''{value} {prefix}'' ''{value}E{exp_of_10}'' = Inr ''1.0E-27''
   \<and> si_format (155051 * 10 ^ 23) 2 ''{value} {prefix}'' ''{value}E{expof10}'' = Inr ''15.51E+27''"
proof -
  have h1: "1 / 10 ^ 305 \<le> \<bar>1 / 10 ^ 27 :: rat\<bar> \<and> \<bar>1 / 10 ^ 27 :: rat\<bar> \<le> 10 ^ 308 \<and> (1::nat) < 2 ^ 31
      \<and> 24 < \<bar>snd (priv_split (1 / 10 ^ 27) 1)\<bar>"
    unfolding split_1e_27 by simp
  have h2: "1 / 10 ^ 305 \<le> \<bar>155051 * 10 ^ 23 :: rat\<bar> \<and> \<bar>155051 * 10 ^ 23 :: rat\<bar> \<le> 10 ^ 308
      \<and> (2::nat) < 2 ^ 31 \<and> 24 < \<bar>snd (split (155051 * 10 ^ 23) 2)\<bar>"
    unfolding legacy_split_1_55051e28 by simp
  have r1: "with_format (1 / 10 ^ 27) 1 ''{value} {prefix}'' ''{value}E{exp_of_10}'' =
      str_format ''{value}E{exp_of_10}'' [(''value'', format_fixed (fst (priv_split (1 / 10 ^ 27) 1)) 1),
                      (''exp_of_10'', signed_exp (snd (priv_split (1 / 10 ^ 27) 1)))]"
    using exponential_fallback [of "1 / 10 ^ 27" 1 "''{value} {prefix}''" "''{value}E{exp_of_10}''" 0] h1
    by blast
  have r2: "si_format (155051 * 10 ^ 23) 2 ''{value} {prefix}'' ''{value}E{expof10}'' =
      str_format ''{value}E{expof10}'' [(''value'', format_fixed (fst (split (155051 * 10 ^ 23) 2)) 2),
                      (''expof10'', signed_exp (snd (split (155051 * 10 ^ 23) 2)))]"
    using exponential_fallback [of "155051 * 10 ^ 23" 2 "''{value} {prefix}''" "''{value}E{expof10}''" 0] h2
    by blast
  have e1: "with_format (1 / 10 ^ 27) 1 ''{value} {prefix}'' ''{value}E{exp_of_10}'' = Inr ''1.0E-27''"
    unfolding r1 split_1e_27 by (simp add: fmt_defs run_defs)
  have e2: "si_format (155051 * 10 ^ 23) 2 ''{value} {prefix}'' ''{value}E{expof10}'' = Inr ''15.51E+27''"
    unfolding r2 legacy_split_1_55051e28 by (simp add: fmt_defs run_defs)
  show ?thesis
    by (rule conjI [OF h1 conjI [OF h2 conjI [OF e1 e2]]])
qed

text \<open>
  Claim C8 (exponent 0).  The claim asks that with the default template a value of
  exponent 0 is formatted as its fixed-point text alone, \<^verbatim>\<open>3.94\<close> for 3.93766.  In the
  code the lookup of exponent 0 succeeds with an empty prefix, the template
  \<^verbatim>\<open>{value} {prefix}\<close> is filled in, and the text ends with the space of the template.
\<close>

theorem zero_exponent_trailing_space:
  "(snd (priv_split v p) = 0 \<longrightarrow>
      with_format v p default_format_str default_exp_format_str
        = Inr (format_fixed (fst (priv_split v p)) p @ '' ''))
   \<and> (snd (split v p) = 0 \<longrightarrow>
      si_format v p default_format_str default_si_exp_format_str
        = Inr (format_fixed (fst (split v p)) p @ '' ''))"
  by (simp add: with_format_def si_format_def case_prod_beta
      priv_prefix_zero prefix_zero strip_empty strip_space render_default)

theorem zero_exponent_trailing_space_witness:
  "snd (priv_split (393766 / 100000) 2) = 0 \<and> snd (split (393766 / 100000) 2) = 0
   \<and> with_format (393766 / 100000) 2 default_format_str default_exp_format_str = Inr ''3.94 ''
   \<and> si_format (393766 / 100000) 2 default_format_str default_si_exp_format_str = Inr ''3.94 ''"
proof -
  have h1: "snd (priv_split (393766 / 100000) 2) = 0"
    unfolding split_3_93766 by simp
  have h2: "snd (split (393766 / 100000) 2) = 0"
    unfolding legacy_split_3_93766 by simp
  have r1: "with_format (393766 / 100000) 2 default_format_str default_exp_format_str
        = Inr (format_fixed (fst (priv_split (393766 / 100000) 2)) 2 @ '' '')"
    using zero_exponent_trailing_space [of "393766 / 100000" 2] h1 by blast
  have r2: "si_format (393766 / 100000) 2 default_format_str default_si_exp_format_str
        = Inr (format_fixed (fst (split (393766 / 100000) 2)) 2 @ '' '')"
    using zero_exponent_trailing_space [of "393766 / 100000" 2] h2 by blast
  have e1: "with_format (393766 / 100000) 2 default_format_str default_exp_format_str = Inr ''3.94 ''"
    unfolding r1 split_3_93766 by (simp add: run_defs)
  have e2: "si_format (393766 / 100000) 2 default_format_str default_si_exp_format_str = Inr ''3.94 ''"
    unfolding r2 legacy_split_3_93766 by (simp add: run_defs)
  show ?thesis
    using h1 h2 e1 e2 by (intro conjI)
qed



text \<open>
  Claim C10 (\<^verbatim>\<open>si_prefix_scale\<close>).  \<^verbatim>\<open>si_prefix_scale\<close> returns \<open>10^x\<close> when the exponent \<open>x\<close>
  of the symbol is not negative and raises \<^verbatim>\<open>TypeError\<close> when it is: over the symbols
  \<^verbatim>\<open>yzafpn\<close>, micro, \<^verbatim>\<open>m\<close>, space, \<^verbatim>\<open>kMGTPEZY\<close> in this order, the first eight raise and the
  other nine give 1, 1000, and so on up to \<open>10^24\<close>.
\<close>

theorem si_prefix_scale_by_sign:
  "si_prefix_scale u =
     (case si_prefix_expof10 u of
        Inl err \<Rightarrow> Inl err
      | Inr x \<Rightarrow> if 0 \<le> x then Inr (10 ^ nat x) else Inl TypeError)
   \<and> map (\<lambda>c. si_prefix_scale [c]) SI_PREFIX_UNITS =
       replicate 8 (Inl TypeError) @ map (\<lambda>k. Inr (1000 ^ k)) [0, 1, 2, 3, 4, 5, 6, 7, 8]"
proof -
  have a: "si_prefix_scale u =
     (case si_prefix_expof10 u of
        Inl err \<Rightarrow> Inl err
      | Inr x \<Rightarrow> if 0 \<le> x then Inr (10 ^ nat x) else Inl TypeError)" for u
    by (simp add: si_prefix_scale_def py_pow10_def split: sum.splits)
  have b: "map (\<lambda>c. si_prefix_scale [c]) SI_PREFIX_UNITS =
       replicate 8 (Inl TypeError) @ map (\<lambda>k. Inr (1000 ^ k)) [0, 1, 2, 3, 4, 5, 6, 7, 8]"
    using expof10_symbols
    by (simp add: a SI_PREFIX_UNITS_def numeral_eq_Suc)
  show ?thesis
    using a b by (intro conjI)
qed

theorem si_prefix_scale_by_sign_witness:
  "si_prefix_scale ''k'' = Inr 1000 \<and> si_prefix_scale ''m'' = Inl TypeError
   \<and> si_prefix_scale ''x'' = Inl ValueError"
proof -
  have k: "si_prefix_expof10 ''k'' = Inr 3" and m: "si_prefix_expof10 ''m'' = Inr (- 3)"
    and x: "si_prefix_expof10 ''x'' = Inl ValueError"
    by (simp_all add: si_prefix_expof10_def py_index_def prefix_levels_def SI_PREFIX_UNITS_def)
  show ?thesis
    using si_prefix_scale_by_sign [of "''k''"] si_prefix_scale_by_sign [of "''m''"]
      si_prefix_scale_by_sign [of "''x''"]
    by (simp add: k m x)
qed

end
